theory Spec2Isabelle
  imports Complex_Main
begin

section \<open>Numbers, points and the transformed container\<close>

text \<open>
  The viewers compute with JavaScript numbers. They are modelled as \<open>real\<close>: the
  arithmetic of the source is taken exactly (the decimal literals \<open>0.1\<close>, \<open>0.9\<close>,
  \<open>1.1\<close>, \<open>1.3\<close> and \<open>0.7\<close> are the fractions they denote), so a property the
  source has "up to rounding" is an equation here. Where JavaScript would divide by
  zero (yielding \<open>Infinity\<close> or \<open>NaN\<close>) HOL's \<open>x / 0 = 0\<close> says something
  else; every theorem below that looks through a division keeps the divisor away from
  zero by a hypothesis.

  \<open>Math.round\<close> rounds to the nearest integer, halves towards \<open>+\<infinity>\<close>.
\<close>

definition Math_round :: "real \<Rightarrow> int" where
  "Math_round v = \<lfloor>v + 1/2\<rfloor>"

text \<open>A pair of coordinates \<open>{x, y}\<close>: \<open>mouse\<close>, \<open>e.global\<close>, \<open>dragStart\<close>,
  \<open>containerStart\<close>, \<open>world\<close>.\<close>

record point =
  pt_x :: real
  pt_y :: real

text \<open>
  \<open>mainContainer\<close> of the PixiJS viewers: its position and its scale. The source only
  ever writes the scale through \<open>scale.set(v)\<close>, which sets \<open>scale.x\<close> and
  \<open>scale.y\<close> to the same number, so one field holds both.
\<close>

record container =
  mc_x :: real
  mc_y :: real
  mc_scale :: real

text \<open>
  The local \<open>world\<close> of the wheel and click listeners,
  \<open>{x: (p.x - mc.x) / mc.scale.x, y: (p.y - mc.y) / mc.scale.y}\<close>: the content point
  under the screen point \<open>p\<close>.
\<close>

definition world :: "point \<Rightarrow> container \<Rightarrow> point" where
  "world p mc = \<lparr>pt_x = (pt_x p - mc_x mc) / mc_scale mc,
                 pt_y = (pt_y p - mc_y mc) / mc_scale mc\<rparr>"

subsection \<open>Wheel zoom\<close>

text \<open>
  The wheel listener of \<open>initPixi\<close>, on the container:
  \<^verbatim>\<open>
  const delta = e.deltaY > 0 ? 0.9 : 1.1;
  const newScale = Math.max(0.1, Math.min(10, mc.scale.x * delta));
  const mouse = { x: e.offsetX, y: e.offsetY };
  const world = { x: (mouse.x - mc.x) / mc.scale.x, y: (mouse.y - mc.y) / mc.scale.y };
  mc.scale.set(newScale);
  mc.x = mouse.x - world.x * newScale;
  mc.y = mouse.y - world.y * newScale;
  \<close>
\<close>

record wheel_event =
  deltaY :: real
  offsetX :: real
  offsetY :: real

definition wheel_delta :: "wheel_event \<Rightarrow> real" where
  "wheel_delta e = (if deltaY e > 0 then 9/10 else 11/10)"

definition wheel_newScale :: "wheel_event \<Rightarrow> container \<Rightarrow> real" where
  "wheel_newScale e mc = max (1/10) (min 10 (mc_scale mc * wheel_delta e))"

definition wheel_mouse :: "wheel_event \<Rightarrow> point" where
  "wheel_mouse e = \<lparr>pt_x = offsetX e, pt_y = offsetY e\<rparr>"

definition wheel_container :: "wheel_event \<Rightarrow> container \<Rightarrow> container" where
  "wheel_container e mc =
     (let newScale = wheel_newScale e mc;
          mouse = wheel_mouse e;
          w = world mouse mc
      in \<lparr>mc_x = pt_x mouse - pt_x w * newScale,
          mc_y = pt_y mouse - pt_y w * newScale,
          mc_scale = newScale\<rparr>)"


section \<open>The GPU viewer (PixiViewer)\<close>

text \<open>
  A width and a height: \<open>app.screen\<close> and the base sprite. The keys of the three
  overlays. An overlay sprite as the loop of \<open>initPixi\<close> leaves it.
\<close>

record dims =
  d_width :: real
  d_height :: real

datatype color = Red | Green | Blue

record sprite =
  zIndex :: nat
  alpha :: real
  visible :: bool

text \<open>
  \<open>pixiRef.current\<close>. Its fields \<open>app\<close>, \<open>mainContainer\<close> and \<open>baseSprite\<close> are
  assigned together (after the base texture has loaded) and set to \<open>null\<close> together,
  so the value is either absent (\<open>None\<close> below) or holds all three.
\<close>

record pixi =
  screen :: dims
  mainContainer :: container
  baseSprite :: dims
  overlays :: "color \<Rightarrow> sprite option"

text \<open>The value given to \<open>setClickPos\<close>, and the one given to \<open>setViewportBounds\<close>.\<close>

record click_pos =
  cp_screen :: "int \<times> int"
  cp_original :: "int \<times> int"

record bounds =
  vb_x :: real
  vb_y :: real
  vb_width :: real
  vb_height :: real

datatype log_entry = Warn_failed_to_load color | Error_pixi_init

text \<open>
  The state of one mounted PixiViewer: the ref, the three variables the listeners
  close over (\<open>isDragging\<close>, \<open>dragStart\<close>, \<open>containerStart\<close>), the React state the
  claims read, \<open>data.scaling_factor\<close>, and what was written to the console.
\<close>

record viewer =
  pixiRef :: "pixi option"
  isDragging :: bool
  dragStart :: point
  containerStart :: point
  zoomLevel :: int
  clickPos :: "click_pos option"
  isLoading :: bool
  viewportBounds :: bounds
  scaling_factor :: real
  console :: "log_entry list"

text \<open>
  \<^verbatim>\<open>
  const vx = -mainContainer.x / (baseSprite.width * mainContainer.scale.x);
  const vy = -(mainContainer.y - 60) / (baseSprite.height * mainContainer.scale.y);
  const vw = app.screen.width / (baseSprite.width * mainContainer.scale.x);
  const vh = (app.screen.height - 60) / (baseSprite.height * mainContainer.scale.y);
  setViewportBounds({ x: Math.max(0, vx * 100), y: Math.max(0, vy * 100),
                      width: Math.min(100, vw * 100), height: Math.min(100, vh * 100) });
  \<close>
\<close>

definition bounds_of :: "pixi \<Rightarrow> bounds" where
  "bounds_of p =
     (let mc = mainContainer p; bs = baseSprite p; sc = screen p;
          vx = - mc_x mc / (d_width bs * mc_scale mc);
          vy = - (mc_y mc - 60) / (d_height bs * mc_scale mc);
          vw = d_width sc / (d_width bs * mc_scale mc);
          vh = (d_height sc - 60) / (d_height bs * mc_scale mc)
      in \<lparr>vb_x = max 0 (vx * 100), vb_y = max 0 (vy * 100),
          vb_width = min 100 (vw * 100), vb_height = min 100 (vh * 100)\<rparr>)"

definition updateViewportBounds :: "viewer \<Rightarrow> viewer" where
  "updateViewportBounds v =
     (case pixiRef v of
        None \<Rightarrow> v
      | Some p \<Rightarrow> v\<lparr>viewportBounds := bounds_of p\<rparr>)"

text \<open>
  The listeners registered by \<open>initPixi\<close>. They exist only while the application
  they were registered on is alive, which is while \<open>pixiRef\<close> holds it; with no
  application no event arrives and the state stays as it is. The earlier PixiViewer
  has the same listeners and buttons, line for line in their arithmetic, acting on the
  container directly (no \<open>null\<close> checks, no \<open>updateViewportBounds\<close>): the functions
  on \<open>container\<close> below are those of both files.
\<close>

definition wheel :: "wheel_event \<Rightarrow> viewer \<Rightarrow> viewer" where
  "wheel e v =
     (case pixiRef v of
        None \<Rightarrow> v
      | Some p \<Rightarrow>
          (let mc = wheel_container e (mainContainer p)
           in updateViewportBounds
                (v\<lparr>pixiRef := Some (p\<lparr>mainContainer := mc\<rparr>),
                   zoomLevel := Math_round (mc_scale mc * 100)\<rparr>)))"

definition pointerdown :: "point \<Rightarrow> viewer \<Rightarrow> viewer" where
  "pointerdown g v =
     (case pixiRef v of
        None \<Rightarrow> v
      | Some p \<Rightarrow>
          v\<lparr>isDragging := True,
            dragStart := \<lparr>pt_x = pt_x g, pt_y = pt_y g\<rparr>,
            containerStart := \<lparr>pt_x = mc_x (mainContainer p), pt_y = mc_y (mainContainer p)\<rparr>\<rparr>)"

definition pointermove_container :: "point \<Rightarrow> point \<Rightarrow> point \<Rightarrow> container \<Rightarrow> container" where
  "pointermove_container g ds cs mc =
     mc\<lparr>mc_x := pt_x cs + (pt_x g - pt_x ds), mc_y := pt_y cs + (pt_y g - pt_y ds)\<rparr>"

definition pointermove :: "point \<Rightarrow> viewer \<Rightarrow> viewer" where
  "pointermove g v =
     (if \<not> isDragging v then v
      else case pixiRef v of
        None \<Rightarrow> v
      | Some p \<Rightarrow>
          updateViewportBounds
            (v\<lparr>pixiRef := Some (p\<lparr>mainContainer :=
                 pointermove_container g (dragStart v) (containerStart v) (mainContainer p)\<rparr>)\<rparr>))"

definition endDrag :: "viewer \<Rightarrow> viewer" where
  "endDrag v = v\<lparr>isDragging := False\<rparr>"

text \<open>
  \<^verbatim>\<open>
  app.stage.on('click', (e) => {
    if (Math.abs(e.global.x - dragStart.x) > 5) return;
    const mc = pixiRef.current.mainContainer;
    if (!mc) return;
    const world = { x: (e.global.x - mc.x) / mc.scale.x, y: (e.global.y - mc.y) / mc.scale.y };
    setClickPos({
      screen: { x: Math.round(e.global.x), y: Math.round(e.global.y) },
      original: { x: Math.round(world.x / data.scaling_factor),
                  y: Math.round(world.y / data.scaling_factor) } });
  });
  \<close>
\<close>

definition click_measurement :: "real \<Rightarrow> point \<Rightarrow> container \<Rightarrow> click_pos" where
  "click_measurement sf g mc =
     (let w = world g mc
      in \<lparr>cp_screen = (Math_round (pt_x g), Math_round (pt_y g)),
          cp_original = (Math_round (pt_x w / sf), Math_round (pt_y w / sf))\<rparr>)"

definition click :: "point \<Rightarrow> viewer \<Rightarrow> viewer" where
  "click g v =
     (if \<bar>pt_x g - pt_x (dragStart v)\<bar> > 5 then v
      else case pixiRef v of
        None \<Rightarrow> v
      | Some p \<Rightarrow> v\<lparr>clickPos := Some (click_measurement (scaling_factor v) g (mainContainer p))\<rparr>)"

subsection \<open>Buttons\<close>

text \<open>
  \<^verbatim>\<open>
  const ns = Math.min(10, mc.scale.x * 1.3);   // handleZoomIn
  const ns = Math.max(0.1, mc.scale.x * 0.7);  // handleZoomOut
  mc.scale.set(ns); setZoomLevel(Math.round(ns * 100)); updateViewportBounds();
  \<close>
\<close>

definition zoomIn_container :: "container \<Rightarrow> container" where
  "zoomIn_container mc = mc\<lparr>mc_scale := min 10 (mc_scale mc * (13/10))\<rparr>"

definition zoomOut_container :: "container \<Rightarrow> container" where
  "zoomOut_container mc = mc\<lparr>mc_scale := max (1/10) (mc_scale mc * (7/10))\<rparr>"

definition handleZoomIn :: "viewer \<Rightarrow> viewer" where
  "handleZoomIn v =
     (case pixiRef v of
        None \<Rightarrow> v
      | Some p \<Rightarrow>
          (let mc = zoomIn_container (mainContainer p)
           in updateViewportBounds
                (v\<lparr>pixiRef := Some (p\<lparr>mainContainer := mc\<rparr>),
                   zoomLevel := Math_round (mc_scale mc * 100)\<rparr>)))"

definition handleZoomOut :: "viewer \<Rightarrow> viewer" where
  "handleZoomOut v =
     (case pixiRef v of
        None \<Rightarrow> v
      | Some p \<Rightarrow>
          (let mc = zoomOut_container (mainContainer p)
           in updateViewportBounds
                (v\<lparr>pixiRef := Some (p\<lparr>mainContainer := mc\<rparr>),
                   zoomLevel := Math_round (mc_scale mc * 100)\<rparr>)))"

text \<open>
  The fit used by "Center view" in \<open>initPixi\<close> and by \<open>handleResetView\<close>:
  \<^verbatim>\<open>
  const scale = Math.min(app.screen.width / baseSprite.width,
                         (app.screen.height - 60) / baseSprite.height) * 0.9;
  mainContainer.scale.set(scale);
  mainContainer.x = (app.screen.width - baseSprite.width * scale) / 2;
  mainContainer.y = 60 + (app.screen.height - 60 - baseSprite.height * scale) / 2;
  \<close>
\<close>

definition fit_scale :: "dims \<Rightarrow> dims \<Rightarrow> real" where
  "fit_scale sc bs =
     min (d_width sc / d_width bs) ((d_height sc - 60) / d_height bs) * (9/10)"

definition fit_container :: "dims \<Rightarrow> dims \<Rightarrow> container" where
  "fit_container sc bs =
     (let scale = fit_scale sc bs
      in \<lparr>mc_x = (d_width sc - d_width bs * scale) / 2,
          mc_y = 60 + (d_height sc - 60 - d_height bs * scale) / 2,
          mc_scale = scale\<rparr>)"

definition handleResetView :: "viewer \<Rightarrow> viewer" where
  "handleResetView v =
     (case pixiRef v of
        None \<Rightarrow> v
      | Some p \<Rightarrow>
          (let mc = fit_container (screen p) (baseSprite p)
           in updateViewportBounds
                (v\<lparr>pixiRef := Some (p\<lparr>mainContainer := mc\<rparr>),
                   zoomLevel := Math_round (mc_scale mc * 100)\<rparr>)))"

text \<open>
  \<^verbatim>\<open>
  mainContainer.x = app.screen.width / 2 - x * baseSprite.width * mainContainer.scale.x;
  mainContainer.y = (app.screen.height - 60) / 2 + 60 - y * baseSprite.height * mainContainer.scale.y;
  \<close>
\<close>

definition navigate_container :: "dims \<Rightarrow> dims \<Rightarrow> real \<Rightarrow> real \<Rightarrow> container \<Rightarrow> container" where
  "navigate_container sc bs x y mc =
     mc\<lparr>mc_x := d_width sc / 2 - x * d_width bs * mc_scale mc,
        mc_y := (d_height sc - 60) / 2 + 60 - y * d_height bs * mc_scale mc\<rparr>"

definition handleMiniMapNavigate :: "real \<Rightarrow> real \<Rightarrow> viewer \<Rightarrow> viewer" where
  "handleMiniMapNavigate x y v =
     (case pixiRef v of
        None \<Rightarrow> v
      | Some p \<Rightarrow>
          updateViewportBounds
            (v\<lparr>pixiRef := Some (p\<lparr>mainContainer :=
                 navigate_container (screen p) (baseSprite p) x y (mainContainer p)\<rparr>)\<rparr>))"

subsection \<open>Events\<close>

text \<open>What the user can do to a mounted viewer, and the state after a sequence of it.\<close>

datatype event =
    Wheel wheel_event
  | PointerDown point
  | PointerMove point
  | PointerUp
  | Click point
  | ZoomIn
  | ZoomOut
  | ResetView
  | MiniMapNavigate real real

fun step :: "viewer \<Rightarrow> event \<Rightarrow> viewer" where
  "step v (Wheel e) = wheel e v"
| "step v (PointerDown g) = pointerdown g v"
| "step v (PointerMove g) = pointermove g v"
| "step v PointerUp = endDrag v"
| "step v (Click g) = click g v"
| "step v ZoomIn = handleZoomIn v"
| "step v ZoomOut = handleZoomOut v"
| "step v ResetView = handleResetView v"
| "step v (MiniMapNavigate x y) = handleMiniMapNavigate x y v"

definition run :: "viewer \<Rightarrow> event list \<Rightarrow> viewer" where
  "run v es = foldl step v es"

subsection \<open>Initialisation\<close>

text \<open>
  What the asynchronous steps of \<open>initPixi\<close> come back with: whether \<open>app.init\<close>
  resolves, the size of \<open>app.screen\<close>, the size of the base texture if
  \<open>PIXI.Assets.load(imageUrls.base)\<close> resolves, and for each overlay whether its load
  resolves.
\<close>

record load_outcome =
  lo_init :: bool
  lo_screen :: dims
  lo_base :: "dims option"
  lo_overlay :: "color \<Rightarrow> bool"

definition overlayConfigs :: "(color \<times> nat) list" where
  "overlayConfigs = [(Red, 1), (Green, 2), (Blue, 3)]"

text \<open>
  \<^verbatim>\<open>
  for (const config of overlayConfigs) {
    try {
      const texture = await PIXI.Assets.load(config.url);
      const sprite = new PIXI.Sprite(texture);
      sprite.zIndex = config.zIndex; sprite.alpha = 0.6; sprite.visible = true;
      mainContainer.addChild(sprite);
      pixiRef.current.overlays[config.key] = sprite;
    } catch (e) { console.warn(`Failed to load ${config.key}:`, e); }
  }
  \<close>
\<close>

fun load_overlays ::
  "(color \<Rightarrow> bool) \<Rightarrow> (color \<times> nat) list \<Rightarrow> (color \<Rightarrow> sprite option) \<times> log_entry list
     \<Rightarrow> (color \<Rightarrow> sprite option) \<times> log_entry list" where
  "load_overlays ok [] acc = acc"
| "load_overlays ok ((key, z) # configs) (ovs, lg) =
     (if ok key
      then load_overlays ok configs
             (ovs(key := Some \<lparr>zIndex = z, alpha = 6/10, visible = True\<rparr>), lg)
      else load_overlays ok configs (ovs, lg @ [Warn_failed_to_load key]))"

text \<open>
  \<open>initPixi\<close>, run by the effect whenever \<open>imageUrls.base\<close> or
  \<open>data.scaling_factor\<close> changes. The previous application is destroyed and the ref
  emptied; \<open>setIsLoading(true)\<close>; then, inside \<open>try\<close>: \<open>app.init\<close>, the base
  texture, the ref, the overlays, the fit, fresh listeners (with their own
  \<open>isDragging = false\<close>, \<open>dragStart = {0, 0}\<close>, \<open>containerStart = {0, 0}\<close>),
  \<open>setIsLoading(false)\<close>, \<open>setZoomLevel\<close>, \<open>updateViewportBounds\<close>. The
  \<open>catch\<close> is \<open>console.error('PixiJS init error:', err); setIsLoading(false)\<close>.
  Nothing here calls \<open>setClickPos\<close>. The component is taken to stay mounted
  (\<open>containerRef.current\<close> is there throughout).
\<close>

definition initPixi_catch :: "viewer \<Rightarrow> viewer" where
  "initPixi_catch v = v\<lparr>console := console v @ [Error_pixi_init], isLoading := False\<rparr>"

definition initPixi :: "load_outcome \<Rightarrow> viewer \<Rightarrow> viewer" where
  "initPixi lo v0 =
     (let v = v0\<lparr>pixiRef := None, isLoading := True\<rparr>
      in if \<not> lo_init lo then initPixi_catch v
         else case lo_base lo of
           None \<Rightarrow> initPixi_catch v
         | Some bs \<Rightarrow>
             (let (ovs, lg) = load_overlays (lo_overlay lo) overlayConfigs (\<lambda>k. None, console v);
                  mc = fit_container (lo_screen lo) bs;
                  p = \<lparr>screen = lo_screen lo, mainContainer = mc, baseSprite = bs, overlays = ovs\<rparr>
              in updateViewportBounds
                   (v\<lparr>pixiRef := Some p,
                      isDragging := False,
                      dragStart := \<lparr>pt_x = 0, pt_y = 0\<rparr>,
                      containerStart := \<lparr>pt_x = 0, pt_y = 0\<rparr>,
                      zoomLevel := Math_round (mc_scale mc * 100),
                      isLoading := False,
                      console := lg\<rparr>)))"

text \<open>
  A page change: new \<open>data\<close> arrives as props. The effect that holds \<open>initPixi\<close> has
  the dependency list \<open>[imageUrls?.base, data?.scaling_factor]\<close>, so React runs it
  again only when the base URL or the scaling factor differs from the one of the
  render before; otherwise nothing happens to the state. When it does run, the cleanup
  of the previous run destroys the application and empties the ref, and the body is
  \<open>if (!containerRef.current || !imageUrls) return;\<close> followed by \<open>initPixi()\<close>.
  \<open>old_base\<close> and \<open>new_base\<close> are \<open>imageUrls?.base\<close> before and after
  (\<open>None\<close> when there are no images), \<open>sf\<close> is the new \<open>data.scaling_factor\<close>.
\<close>

definition page_change ::
  "string option \<Rightarrow> string option \<Rightarrow> real \<Rightarrow> load_outcome \<Rightarrow> viewer \<Rightarrow> viewer" where
  "page_change old_base new_base sf lo v =
     (if new_base = old_base \<and> sf = scaling_factor v then v
      else case new_base of
             None \<Rightarrow> v\<lparr>pixiRef := None, scaling_factor := sf\<rparr>
           | Some url \<Rightarrow> initPixi lo (v\<lparr>scaling_factor := sf\<rparr>))"

text \<open>
  What the component returns, as far as the state above decides it: the
  \<open>Loading...\<close> text when \<open>!data || !data.images\<close>, else the viewer with the
  spinner (shown iff \<open>isLoading\<close>), the zoom label, the coordinate display and the
  minimap.
\<close>

datatype pixi_view =
    Loading_text
  | Viewer_ui (spinner: bool) (zoom_label: int) (coordinates: "click_pos option") (minimap: bounds)

definition PixiViewer_render :: "bool \<Rightarrow> viewer \<Rightarrow> pixi_view" where
  "PixiViewer_render has_images v =
     (if \<not> has_images then Loading_text
      else Viewer_ui (isLoading v) (zoomLevel v) (clickPos v) (viewportBounds v))"

section \<open>The minimap\<close>

record mouse_event =
  clientX :: real
  clientY :: real

record dom_rect =
  r_left :: real
  r_top :: real
  r_width :: real
  r_height :: real

text \<open>
  \<open>MiniMap.handleClick\<close>, for a minimap that is in the document: with \<open>rect\<close> its
  bounding rectangle,
  \<^verbatim>\<open>
  const x = (e.clientX - rect.left) / rect.width;
  const y = (e.clientY - rect.top) / rect.height;
  onNavigate(x * 100, y * 100);
  \<close>
\<close>

definition MiniMap_handleClick ::
  "(real \<Rightarrow> real \<Rightarrow> 's \<Rightarrow> 's) \<Rightarrow> mouse_event \<Rightarrow> dom_rect \<Rightarrow> 's \<Rightarrow> 's" where
  "MiniMap_handleClick onNavigate e rect =
     (let x = (clientX e - r_left rect) / r_width rect;
          y = (clientY e - r_top rect) / r_height rect
      in onNavigate (x * 100) (y * 100))"

text \<open>
  \<open>viewportStyle\<close> of the minimap, in percent of the minimap's box:
  \<^verbatim>\<open>
  left:   Math.max(0, Math.min(100 - viewportBounds.width, viewportBounds.x))
  top:    Math.max(0, Math.min(100 - viewportBounds.height, viewportBounds.y))
  width:  Math.max(5, Math.min(100, viewportBounds.width))
  height: Math.max(5, Math.min(100, viewportBounds.height))
  \<close>
\<close>

record style =
  st_left :: real
  st_top :: real
  st_width :: real
  st_height :: real

definition viewportStyle :: "bounds \<Rightarrow> style" where
  "viewportStyle vb =
     \<lparr>st_left = max 0 (min (100 - vb_width vb) (vb_x vb)),
      st_top = max 0 (min (100 - vb_height vb) (vb_y vb)),
      st_width = max 5 (min 100 (vb_width vb)),
      st_height = max 5 (min 100 (vb_height vb))\<rparr>"

section \<open>The direct-compositing viewer (ComparisonViewer)\<close>

text \<open>
  \<open>data\<close> may be \<open>null\<close>, and \<open>data.scaling_factor\<close> may be missing; a number is
  falsy when it is \<open>0\<close> (or \<open>NaN\<close>, which \<open>real\<close> does not have).
\<close>

record session_data =
  sd_scaling_factor :: "real option"

definition data_scaling_factor :: "session_data option \<Rightarrow> real option" where
  "data_scaling_factor data = (case data of None \<Rightarrow> None | Some d \<Rightarrow> sd_scaling_factor d)"

definition falsy :: "real option \<Rightarrow> bool" where
  "falsy n = (case n of None \<Rightarrow> True | Some r \<Rightarrow> r = 0)"

text \<open>
  The state of a mounted ComparisonViewer that the claims read; \<open>cv_transform\<close> is the
  state \<open>{scale, positionX, positionY}\<close> behind \<open>transformRef.current\<close>, kept by the
  zoom-pan-pinch library.
\<close>

record cviewer =
  cv_clickPos :: "click_pos option"
  cv_imageLoaded :: bool
  cv_imageError :: "string option"
  cv_transform :: "container option"

text \<open>
  \<open>handleClick\<close>; \<open>rect\<close> is \<open>e.currentTarget.getBoundingClientRect()\<close>, the
  rectangle the transformed canvas element occupies on the screen.
  \<^verbatim>\<open>
  if (!data?.scaling_factor) return;
  const x = e.clientX - rect.left;
  const y = e.clientY - rect.top;
  const originalX = Math.round(x / data.scaling_factor);
  const originalY = Math.round(y / data.scaling_factor);
  setClickPos({ screen: { x: Math.round(x), y: Math.round(y) },
                original: { x: originalX, y: originalY } });
  \<close>
\<close>

definition handleClick :: "session_data option \<Rightarrow> mouse_event \<Rightarrow> dom_rect \<Rightarrow> cviewer \<Rightarrow> cviewer" where
  "handleClick data e rect st =
     (if falsy (data_scaling_factor data) then st
      else case data_scaling_factor data of
        None \<Rightarrow> st
      | Some sf \<Rightarrow>
          (let x = clientX e - r_left rect;
               y = clientY e - r_top rect;
               originalX = Math_round (x / sf);
               originalY = Math_round (y / sf)
           in st\<lparr>cv_clickPos := Some \<lparr>cp_screen = (Math_round x, Math_round y),
                                     cp_original = (originalX, originalY)\<rparr>\<rparr>))"

text \<open>
  The second ComparisonViewer takes the rectangle of the \<open>img\<close> inside the clicked
  element, and returns when there is none.
\<close>

definition handleClick_img ::
  "session_data option \<Rightarrow> mouse_event \<Rightarrow> dom_rect option \<Rightarrow> cviewer \<Rightarrow> cviewer" where
  "handleClick_img data e imgElement st =
     (if falsy (data_scaling_factor data) then st
      else case imgElement of
        None \<Rightarrow> st
      | Some rect \<Rightarrow> handleClick data e rect st)"

text \<open>
  \<open>handleMiniMapClick(percentX, percentY)\<close> is
  \<open>if (transformRef.current) transformRef.current.centerView()\<close>; \<open>centerView\<close>
  belongs to the library and is a parameter here.
\<close>

definition handleMiniMapClick ::
  "(container \<Rightarrow> container) \<Rightarrow> real \<Rightarrow> real \<Rightarrow> cviewer \<Rightarrow> cviewer" where
  "handleMiniMapClick centerView percentX percentY st =
     (case cv_transform st of
        None \<Rightarrow> st
      | Some t \<Rightarrow> st\<lparr>cv_transform := Some (centerView t)\<rparr>)"

text \<open>
  The body of the effect "Reset loading state when data changes", the effect with its
  dependency list \<open>[data?.images?.base]\<close> (it runs when the base image path differs
  from the one of the render before), and the two image callbacks.
\<close>

definition data_changed :: "cviewer \<Rightarrow> cviewer" where
  "data_changed st = st\<lparr>cv_imageLoaded := False, cv_imageError := None\<rparr>"

definition ComparisonViewer_page_change ::
  "string option \<Rightarrow> string option \<Rightarrow> cviewer \<Rightarrow> cviewer" where
  "ComparisonViewer_page_change old_base new_base st =
     (if new_base = old_base then st else data_changed st)"

definition handleImageLoad :: "cviewer \<Rightarrow> cviewer" where
  "handleImageLoad st = st\<lparr>cv_imageLoaded := True, cv_imageError := None\<rparr>"

definition handleImageError :: "cviewer \<Rightarrow> cviewer" where
  "handleImageError st = st\<lparr>cv_imageError := Some ''Failed to load image''\<rparr>"

section \<open>Initial state and observations\<close>

text \<open>
  A PixiViewer as React mounts it, from the \<open>useState\<close> and \<open>useRef\<close> initial
  values, with \<open>data.scaling_factor = sf\<close>.
\<close>

definition mounted :: "real \<Rightarrow> viewer" where
  "mounted sf =
     \<lparr>pixiRef = None, isDragging = False,
      dragStart = \<lparr>pt_x = 0, pt_y = 0\<rparr>, containerStart = \<lparr>pt_x = 0, pt_y = 0\<rparr>,
      zoomLevel = 100, clickPos = None, isLoading = True,
      viewportBounds = \<lparr>vb_x = 0, vb_y = 0, vb_width = 100, vb_height = 100\<rparr>,
      scaling_factor = sf, console = []\<rparr>"

text \<open>The viewport transform of a viewer, when it has one.\<close>

definition transform :: "viewer \<Rightarrow> container option" where
  "transform v = map_option mainContainer (pixiRef v)"

section \<open>Properties\<close>

lemma wheel_newScale_bounds: "1/10 \<le> wheel_newScale e mc \<and> wheel_newScale e mc \<le> 10"
  by (simp add: wheel_newScale_def)

lemma wheel_container_scale [simp]: "mc_scale (wheel_container e mc) = wheel_newScale e mc"
  by (simp add: wheel_container_def Let_def)

text \<open>
  C2 (zoom anchor invariance). For every wheel event at the pointer position \<open>p\<close>
  and every container whose scale lies in \<open>[0.1, 10]\<close>, the listener sets the scale to
  \<open>clamp (scale * f) 0.1 10\<close>, \<open>f\<close> the factor of the event, sets the translation
  to \<open>p - ((p - translate) / scale) * newScale\<close>, and the content point under \<open>p\<close> is
  the same before and after.
\<close>

theorem wheel_anchor_invariance:
  assumes "1/10 \<le> mc_scale mc" and "mc_scale mc \<le> 10"
  shows "mc_scale (wheel_container e mc) = max (1/10) (min 10 (mc_scale mc * wheel_delta e))
       \<and> mc_x (wheel_container e mc)
           = offsetX e - ((offsetX e - mc_x mc) / mc_scale mc) * mc_scale (wheel_container e mc)
       \<and> mc_y (wheel_container e mc)
           = offsetY e - ((offsetY e - mc_y mc) / mc_scale mc) * mc_scale (wheel_container e mc)
       \<and> world (wheel_mouse e) (wheel_container e mc) = world (wheel_mouse e) mc"
proof -
  have pos: "wheel_newScale e mc \<noteq> 0"
    using wheel_newScale_bounds [of e mc] by linarith
  have sc: "mc_scale (wheel_container e mc) = max (1/10) (min 10 (mc_scale mc * wheel_delta e))"
    by (simp add: wheel_newScale_def)
  have tx: "mc_x (wheel_container e mc)
           = offsetX e - ((offsetX e - mc_x mc) / mc_scale mc) * mc_scale (wheel_container e mc)"
    by (simp add: wheel_container_def Let_def world_def wheel_mouse_def)
  have ty: "mc_y (wheel_container e mc)
           = offsetY e - ((offsetY e - mc_y mc) / mc_scale mc) * mc_scale (wheel_container e mc)"
    by (simp add: wheel_container_def Let_def world_def wheel_mouse_def)
  have inv: "world (wheel_mouse e) (wheel_container e mc) = world (wheel_mouse e) mc"
    using pos by (simp add: world_def wheel_container_def Let_def wheel_mouse_def)
  from sc tx ty inv show ?thesis by blast
qed

theorem wheel_anchor_invariance_witness:
  "1/10 \<le> mc_scale \<lparr>mc_x = 0, mc_y = 0, mc_scale = 1\<rparr>
   \<and> mc_scale \<lparr>mc_x = 0, mc_y = 0, mc_scale = 1\<rparr> \<le> 10
   \<and> wheel_container \<lparr>deltaY = -1, offsetX = 50, offsetY = 50\<rparr> \<lparr>mc_x = 0, mc_y = 0, mc_scale = 1\<rparr>
     = \<lparr>mc_x = -5, mc_y = -5, mc_scale = 11/10\<rparr>
   \<and> world \<lparr>pt_x = 50, pt_y = 50\<rparr>
        (wheel_container \<lparr>deltaY = -1, offsetX = 50, offsetY = 50\<rparr> \<lparr>mc_x = 0, mc_y = 0, mc_scale = 1\<rparr>)
     = world \<lparr>pt_x = 50, pt_y = 50\<rparr> \<lparr>mc_x = 0, mc_y = 0, mc_scale = 1\<rparr>"
proof -
  let ?mc = "\<lparr>mc_x = 0, mc_y = 0, mc_scale = 1\<rparr>"
  let ?e = "\<lparr>deltaY = -1, offsetX = 50, offsetY = 50\<rparr>"
  have h1: "1/10 \<le> mc_scale ?mc" by simp
  have h2: "mc_scale ?mc \<le> 10" by simp
  have c: "wheel_container ?e ?mc = \<lparr>mc_x = -5, mc_y = -5, mc_scale = 11/10\<rparr>"
    by (simp add: wheel_container_def Let_def world_def wheel_mouse_def wheel_newScale_def
          wheel_delta_def)
  from wheel_anchor_invariance [OF h1 h2, of ?e] h1 h2 c show ?thesis
    by (simp add: wheel_mouse_def)
qed

subsection \<open>Click mapping\<close>

lemma click_measurement_original:
  "cp_original (click_measurement s p mc)
     = (Math_round (((pt_x p - mc_x mc) / mc_scale mc) / s),
        Math_round (((pt_y p - mc_y mc) / mc_scale mc) / s))"
  by (simp add: click_measurement_def world_def Let_def)

lemma click_records:
  assumes "pixiRef v = Some p"
  shows "clickPos (click g v)
           = (if \<bar>pt_x g - pt_x (dragStart v)\<bar> > 5 then clickPos v
              else Some (click_measurement (scaling_factor v) g (mainContainer p)))"
  using assms by (simp add: click_def)

lemma handleClick_original:
  assumes "data_scaling_factor data = Some sf" and "sf \<noteq> 0"
  shows "cv_clickPos (handleClick data e rect st)
           = Some \<lparr>cp_screen = (Math_round (clientX e - r_left rect), Math_round (clientY e - r_top rect)),
                   cp_original = (Math_round ((clientX e - r_left rect) / sf),
                                  Math_round ((clientY e - r_top rect) / sf))\<rparr>"
  using assms by (simp add: handleClick_def falsy_def Let_def)

text \<open>
  The direct viewer's handler never reads the library's transform: whatever the zoom,
  two clicks \<open>d\<close> screen pixels apart are recorded \<open>d / sf\<close> apart.
\<close>

lemma handleClick_ignores_transform:
  "cv_clickPos (handleClick data e rect (st\<lparr>cv_transform := t\<rparr>)) = cv_clickPos (handleClick data e rect st)"
  by (simp add: handleClick_def Let_def split: option.splits)

text \<open>
  C1 (one click mapping for every backend). With scaling factor \<open>1\<close>, scale \<open>2\<close> and
  the content's origin at the screen's origin, a click at \<open>(100, 100)\<close> is recorded as
  \<open>round (((p - translate) / scale) / s) = (50, 50)\<close> by the GPU viewer's listener,
  but as \<open>(100, 100)\<close> by the direct viewer's \<open>handleClick\<close>, which subtracts the
  corner of the transformed element and does not divide by the scale.
\<close>

theorem click_mapping_differs_between_backends:
  "cp_original (click_measurement 1 \<lparr>pt_x = 100, pt_y = 100\<rparr> \<lparr>mc_x = 0, mc_y = 0, mc_scale = 2\<rparr>)
     = (50, 50)
   \<and> cv_clickPos (handleClick (Some \<lparr>sd_scaling_factor = Some 1\<rparr>) \<lparr>clientX = 100, clientY = 100\<rparr>
         \<lparr>r_left = 0, r_top = 0, r_width = 2000, r_height = 1600\<rparr>
         \<lparr>cv_clickPos = None, cv_imageLoaded = True, cv_imageError = None,
          cv_transform = Some \<lparr>mc_x = 0, mc_y = 0, mc_scale = 2\<rparr>\<rparr>)
     = Some \<lparr>cp_screen = (100, 100), cp_original = (100, 100)\<rparr>"
  by (simp add: click_measurement_def world_def Math_round_def handleClick_def falsy_def
        data_scaling_factor_def Let_def)

subsection \<open>Click or drag\<close>

text \<open>
  A click is always preceded by a \<open>pointerdown\<close>, which sets \<open>dragStart\<close>. Less
  than \<open>5\<close> pixels away from it the measurement is recorded; more than \<open>5\<close> pixels to
  the left or right of it nothing happens.
\<close>

lemma small_move_records:
  assumes "pixiRef v = Some p"
      and "(pt_x g - pt_x (dragStart v))\<^sup>2 + (pt_y g - pt_y (dragStart v))\<^sup>2 < 5\<^sup>2"
  shows "clickPos (click g v) = Some (click_measurement (scaling_factor v) g (mainContainer p))"
proof -
  have "(pt_x g - pt_x (dragStart v))\<^sup>2 < 5\<^sup>2"
    using assms(2) zero_le_power2 [of "pt_y g - pt_y (dragStart v)"] by linarith
  then have "\<bar>pt_x g - pt_x (dragStart v)\<bar> < 5"
    using power2_less_imp_less [of "\<bar>pt_x g - pt_x (dragStart v)\<bar>" 5] by simp
  then show ?thesis using assms(1) by (simp add: click_def)
qed

lemma wide_move_suppressed:
  assumes "\<bar>pt_x g - pt_x (dragStart v)\<bar> > 5"
  shows "click g v = v"
  using assms by (simp add: click_def)

text \<open>The two scenarios of the specification, on a viewer initialised with a
  \<open>900 \<times> 900\<close> image on a \<open>1000 \<times> 1060\<close> screen.\<close>

lemma drag_scenarios:
  "clickPos (run (initPixi \<lparr>lo_init = True, lo_screen = \<lparr>d_width = 1000, d_height = 1060\<rparr>,
                           lo_base = Some \<lparr>d_width = 900, d_height = 900\<rparr>,
                           lo_overlay = (\<lambda>k. True)\<rparr> (mounted 1))
     [PointerDown \<lparr>pt_x = 100, pt_y = 100\<rparr>, PointerMove \<lparr>pt_x = 103, pt_y = 101\<rparr>, PointerUp,
      Click \<lparr>pt_x = 103, pt_y = 101\<rparr>])
     = Some \<lparr>cp_screen = (103, 101), cp_original = (50, - 10)\<rparr>
   \<and> clickPos (run (initPixi \<lparr>lo_init = True, lo_screen = \<lparr>d_width = 1000, d_height = 1060\<rparr>,
                           lo_base = Some \<lparr>d_width = 900, d_height = 900\<rparr>,
                           lo_overlay = (\<lambda>k. True)\<rparr> (mounted 1))
     [PointerDown \<lparr>pt_x = 100, pt_y = 100\<rparr>, PointerMove \<lparr>pt_x = 110, pt_y = 100\<rparr>, PointerUp,
      Click \<lparr>pt_x = 110, pt_y = 100\<rparr>])
     = None"
  by (simp add: initPixi_def mounted_def overlayConfigs_def fit_container_def fit_scale_def
        updateViewportBounds_def bounds_of_def Let_def Math_round_def run_def pointerdown_def
        pointermove_def pointermove_container_def endDrag_def click_def click_measurement_def
        world_def)

text \<open>
  C3 (click/drag disambiguation). The listener compares only the horizontal distance
  with the threshold: a pointer pressed at \<open>(100, 100)\<close>, dragged straight down to
  \<open>(100, 200)\<close> and released there has moved \<open>100\<close> pixels (\<open>100\<^sup>2 \<ge> 5\<^sup>2\<close>), and
  the click that follows still records a measurement.
\<close>

theorem vertical_drag_records_measurement:
  "(5::real)\<^sup>2 \<le> (100 - 100)\<^sup>2 + (200 - 100)\<^sup>2
   \<and> clickPos (initPixi \<lparr>lo_init = True, lo_screen = \<lparr>d_width = 1000, d_height = 1060\<rparr>,
                           lo_base = Some \<lparr>d_width = 900, d_height = 900\<rparr>,
                           lo_overlay = (\<lambda>k. True)\<rparr> (mounted 1)) = None
   \<and> clickPos (run (initPixi \<lparr>lo_init = True, lo_screen = \<lparr>d_width = 1000, d_height = 1060\<rparr>,
                           lo_base = Some \<lparr>d_width = 900, d_height = 900\<rparr>,
                           lo_overlay = (\<lambda>k. True)\<rparr> (mounted 1))
     [PointerDown \<lparr>pt_x = 100, pt_y = 100\<rparr>, PointerMove \<lparr>pt_x = 100, pt_y = 200\<rparr>, PointerUp,
      Click \<lparr>pt_x = 100, pt_y = 200\<rparr>])
     = Some \<lparr>cp_screen = (100, 200), cp_original = (50, - 10)\<rparr>"
  by (simp add: initPixi_def mounted_def overlayConfigs_def fit_container_def fit_scale_def
        updateViewportBounds_def bounds_of_def Let_def Math_round_def run_def pointerdown_def
        pointermove_def pointermove_container_def endDrag_def click_def click_measurement_def
        world_def)

subsection \<open>The guard on the scaling factor\<close>

text \<open>
  C10. In both direct-compositing viewers a click with a missing or zero
  \<open>scaling_factor\<close> (or no \<open>data\<close> at all) changes nothing: no measurement is
  recorded and the one shown before stays.
\<close>

theorem handleClick_guarded:
  assumes "falsy (data_scaling_factor data)"
  shows "handleClick data e rect st = st \<and> handleClick_img data e imgElement st = st"
  using assms by (simp add: handleClick_def handleClick_img_def)

theorem handleClick_guarded_witness:
  "falsy (data_scaling_factor (Some \<lparr>sd_scaling_factor = Some 0\<rparr>))
   \<and> handleClick (Some \<lparr>sd_scaling_factor = Some 0\<rparr>) \<lparr>clientX = 100, clientY = 100\<rparr>
        \<lparr>r_left = 0, r_top = 0, r_width = 1000, r_height = 800\<rparr>
        \<lparr>cv_clickPos = Some \<lparr>cp_screen = (1, 2), cp_original = (3, 4)\<rparr>, cv_imageLoaded = True,
         cv_imageError = None, cv_transform = None\<rparr>
      = \<lparr>cv_clickPos = Some \<lparr>cp_screen = (1, 2), cp_original = (3, 4)\<rparr>, cv_imageLoaded = True,
         cv_imageError = None, cv_transform = None\<rparr>"
proof -
  have h: "falsy (data_scaling_factor (Some \<lparr>sd_scaling_factor = Some 0\<rparr>))"
    by (simp add: falsy_def data_scaling_factor_def)
  from handleClick_guarded [OF h] h show ?thesis by blast
qed


subsection \<open>The range of the scale\<close>

lemma pixiRef_updateViewportBounds [simp]: "pixiRef (updateViewportBounds v) = pixiRef v"
  by (simp add: updateViewportBounds_def split: option.splits)

text \<open>What one event does to the application behind the ref: at most the container changes.\<close>

lemma pixiRef_step:
  "pixiRef (step v e) =
     map_option (\<lambda>p. p\<lparr>mainContainer :=
        (case e of
           Wheel w \<Rightarrow> wheel_container w (mainContainer p)
         | PointerMove g \<Rightarrow>
             (if isDragging v
              then pointermove_container g (dragStart v) (containerStart v) (mainContainer p)
              else mainContainer p)
         | ZoomIn \<Rightarrow> zoomIn_container (mainContainer p)
         | ZoomOut \<Rightarrow> zoomOut_container (mainContainer p)
         | ResetView \<Rightarrow> fit_container (screen p) (baseSprite p)
         | MiniMapNavigate x y \<Rightarrow> navigate_container (screen p) (baseSprite p) x y (mainContainer p)
         | _ \<Rightarrow> mainContainer p)\<rparr>) (pixiRef v)"
  by (cases e; cases "pixiRef v")
     (simp_all add: wheel_def pointerdown_def pointermove_def endDrag_def click_def
        handleZoomIn_def handleZoomOut_def handleResetView_def handleMiniMapNavigate_def Let_def)

lemma step_scale_in_range:
  assumes "pixiRef v = Some p"
      and "1/10 \<le> mc_scale (mainContainer p)" and "mc_scale (mainContainer p) \<le> 10"
      and "1/10 \<le> fit_scale (screen p) (baseSprite p)" and "fit_scale (screen p) (baseSprite p) \<le> 10"
  shows "\<exists>p'. pixiRef (step v e) = Some p' \<and> screen p' = screen p \<and> baseSprite p' = baseSprite p
            \<and> 1/10 \<le> mc_scale (mainContainer p') \<and> mc_scale (mainContainer p') \<le> 10"
  using assms wheel_newScale_bounds unfolding pixiRef_step
  by (cases e)
     (simp_all add: zoomIn_container_def zoomOut_container_def fit_container_def
        navigate_container_def pointermove_container_def Let_def)

lemma run_scale_in_range:
  assumes "pixiRef v = Some p"
      and "1/10 \<le> mc_scale (mainContainer p)" and "mc_scale (mainContainer p) \<le> 10"
      and "1/10 \<le> fit_scale (screen p) (baseSprite p)" and "fit_scale (screen p) (baseSprite p) \<le> 10"
  shows "\<exists>p'. pixiRef (run v es) = Some p' \<and> screen p' = screen p \<and> baseSprite p' = baseSprite p
            \<and> 1/10 \<le> mc_scale (mainContainer p') \<and> mc_scale (mainContainer p') \<le> 10"
  using assms
proof (induction es arbitrary: v p)
  case Nil
  then show ?case by (simp add: run_def)
next
  case (Cons e es)
  from step_scale_in_range [OF Cons.prems, of e]
  obtain q where q: "pixiRef (step v e) = Some q" "screen q = screen p" "baseSprite q = baseSprite p"
      "1/10 \<le> mc_scale (mainContainer q)" "mc_scale (mainContainer q) \<le> 10"
    by blast
  from Cons.IH [of "step v e" q] q Cons.prems(4,5)
  show ?case by (simp add: run_def)
qed

lemma pixiRef_initPixi:
  assumes "lo_init lo" and "lo_base lo = Some bs"
  shows "pixiRef (initPixi lo v) =
     Some \<lparr>screen = lo_screen lo, mainContainer = fit_container (lo_screen lo) bs, baseSprite = bs,
            overlays = fst (load_overlays (lo_overlay lo) overlayConfigs (\<lambda>k. None, console v))\<rparr>"
  using assms by (simp add: initPixi_def Let_def split: prod.splits)

text \<open>A wheel event brings the scale into the range from wherever it was.\<close>

lemma wheel_scale_in_range:
  assumes "transform v = Some mc"
  shows "\<exists>mc'. transform (wheel e v) = Some mc' \<and> 1/10 \<le> mc_scale mc' \<and> mc_scale mc' \<le> 10"
  using assms wheel_newScale_bounds [of e]
  by (auto simp: transform_def wheel_def Let_def split: option.splits)

text \<open>
  C4 as the code has it. A viewer initialised on a screen and an image whose
  fit-to-screen scale \<open>min (w / cw) ((h - 60) / ch) * 0.9\<close> lies in \<open>[0.1, 10]\<close> has
  its scale in \<open>[0.1, 10]\<close> after every sequence of wheel, pointer, button, reset and
  minimap events.
\<close>

theorem scale_in_range_when_fit_in_range:
  assumes "lo_init lo" and "lo_base lo = Some bs"
      and "1/10 \<le> fit_scale (lo_screen lo) bs" and "fit_scale (lo_screen lo) bs \<le> 10"
  shows "\<exists>mc. transform (run (initPixi lo v) es) = Some mc \<and> 1/10 \<le> mc_scale mc \<and> mc_scale mc \<le> 10"
proof -
  let ?p = "\<lparr>screen = lo_screen lo, mainContainer = fit_container (lo_screen lo) bs, baseSprite = bs,
            overlays = fst (load_overlays (lo_overlay lo) overlayConfigs (\<lambda>k. None, console v))\<rparr>"
  have "pixiRef (initPixi lo v) = Some ?p" by (rule pixiRef_initPixi [OF assms(1,2)])
  from run_scale_in_range [OF this, of es] assms(3,4)
  show ?thesis by (auto simp: transform_def fit_container_def Let_def)
qed

theorem scale_in_range_when_fit_in_range_witness:
  "lo_init \<lparr>lo_init = True, lo_screen = \<lparr>d_width = 1000, d_height = 1060\<rparr>,
            lo_base = Some \<lparr>d_width = 900, d_height = 900\<rparr>, lo_overlay = (\<lambda>k. True)\<rparr>
   \<and> 1/10 \<le> fit_scale \<lparr>d_width = 1000, d_height = 1060\<rparr> \<lparr>d_width = 900, d_height = 900\<rparr>
   \<and> fit_scale \<lparr>d_width = 1000, d_height = 1060\<rparr> \<lparr>d_width = 900, d_height = 900\<rparr> \<le> 10
   \<and> (\<exists>mc. transform (run (initPixi \<lparr>lo_init = True, lo_screen = \<lparr>d_width = 1000, d_height = 1060\<rparr>,
                                      lo_base = Some \<lparr>d_width = 900, d_height = 900\<rparr>,
                                      lo_overlay = (\<lambda>k. True)\<rparr> (mounted 1))
                  [ZoomOut, Wheel \<lparr>deltaY = 1, offsetX = 10, offsetY = 20\<rparr>, ResetView, ZoomIn])
             = Some mc \<and> 1/10 \<le> mc_scale mc \<and> mc_scale mc \<le> 10)"
proof -
  let ?lo = "\<lparr>lo_init = True, lo_screen = \<lparr>d_width = 1000, d_height = 1060\<rparr>,
             lo_base = Some \<lparr>d_width = 900, d_height = 900\<rparr>, lo_overlay = (\<lambda>k. True)\<rparr>"
  have h1: "lo_init ?lo" by simp
  have h2: "lo_base ?lo = Some \<lparr>d_width = 900, d_height = 900\<rparr>" by simp
  have h3: "1/10 \<le> fit_scale (lo_screen ?lo) \<lparr>d_width = 900, d_height = 900\<rparr>"
    by (simp add: fit_scale_def)
  have h4: "fit_scale (lo_screen ?lo) \<lparr>d_width = 900, d_height = 900\<rparr> \<le> 10"
    by (simp add: fit_scale_def)
  from scale_in_range_when_fit_in_range [OF h1 h2 h3 h4] h1 h3 h4
  show ?thesis by simp
qed

text \<open>
  C4 as the specification states it fails: the fit itself is not clamped. A \<open>10000 \<times> 10000\<close> image on an \<open>800 \<times> 660\<close>
  screen: one wheel notch brings the scale to \<open>0.1\<close>, the reset button then sets it to
  \<open>0.054\<close>, below the minimum.
\<close>

theorem reset_leaves_scale_range:
  "transform (run (initPixi \<lparr>lo_init = True, lo_screen = \<lparr>d_width = 800, d_height = 660\<rparr>,
                            lo_base = Some \<lparr>d_width = 10000, d_height = 10000\<rparr>,
                            lo_overlay = (\<lambda>k. True)\<rparr> (mounted 1))
      [Wheel \<lparr>deltaY = -1, offsetX = 0, offsetY = 0\<rparr>])
     = Some \<lparr>mc_x = 6500 / 27, mc_y = 500 / 3, mc_scale = 1 / 10\<rparr>
   \<and> transform (run (initPixi \<lparr>lo_init = True, lo_screen = \<lparr>d_width = 800, d_height = 660\<rparr>,
                            lo_base = Some \<lparr>d_width = 10000, d_height = 10000\<rparr>,
                            lo_overlay = (\<lambda>k. True)\<rparr> (mounted 1))
      [Wheel \<lparr>deltaY = -1, offsetX = 0, offsetY = 0\<rparr>, ResetView])
     = Some \<lparr>mc_x = 130, mc_y = 90, mc_scale = 27 / 500\<rparr>
   \<and> (27 / 500 :: real) < 1 / 10"
  by (simp add: initPixi_def mounted_def overlayConfigs_def fit_container_def fit_scale_def
        updateViewportBounds_def bounds_of_def Let_def run_def wheel_def wheel_container_def
        wheel_newScale_def wheel_delta_def wheel_mouse_def world_def handleResetView_def
        transform_def)


subsection \<open>The zoom buttons\<close>

lemma ratio_eq_iff:
  fixes a s t :: real
  assumes "s \<noteq> 0" and "t \<noteq> 0" and "s \<noteq> t"
  shows "a / t = a / s \<longleftrightarrow> a = 0"
  using assms by (auto simp: field_simps)

text \<open>
  When only the scale of a container changes, the one screen point that keeps its
  content point is the container's own position, where content \<open>(0, 0)\<close> is drawn.
\<close>

lemma world_fixed_point:
  fixes p :: point
  assumes "mc_scale mc \<noteq> 0" and "s \<noteq> 0" and "s \<noteq> mc_scale mc"
  shows "world p (mc\<lparr>mc_scale := s\<rparr>) = world p mc \<longleftrightarrow> pt_x p = mc_x mc \<and> pt_y p = mc_y mc"
  using assms ratio_eq_iff [of "mc_scale mc" s]
  by (auto simp: world_def)

lemma zoomIn_only_anchor:
  assumes "1/10 \<le> mc_scale mc" and "mc_scale mc < 10"
  shows "world p (zoomIn_container mc) = world p mc \<longleftrightarrow> pt_x p = mc_x mc \<and> pt_y p = mc_y mc"
proof -
  have "min 10 (mc_scale mc * (13/10)) \<noteq> mc_scale mc" "min 10 (mc_scale mc * (13/10)) \<noteq> 0"
       "mc_scale mc \<noteq> 0"
    using assms by (auto simp: min_def)
  from world_fixed_point [OF this(3) this(2) this(1)] show ?thesis
    by (simp add: zoomIn_container_def)
qed

lemma transform_buttons:
  "transform (handleZoomIn v) = map_option zoomIn_container (transform v)
   \<and> transform (handleZoomOut v) = map_option zoomOut_container (transform v)"
  by (cases "pixiRef v") (simp_all add: transform_def handleZoomIn_def handleZoomOut_def Let_def)

text \<open>
  C9 as the code has it. On a container whose scale lies in \<open>[0.1, 10]\<close> the two
  buttons set the scale to \<open>scale * 1.3\<close> resp. \<open>scale * 0.7\<close> clamped to
  \<open>[0.1, 10]\<close> and leave \<open>x\<close> and \<open>y\<close> as they are; the screen point that keeps its
  content point is the container's position \<open>(x, y)\<close>.
\<close>

theorem button_zoom_frame:
  assumes "1/10 \<le> mc_scale mc" and "mc_scale mc \<le> 10"
  shows "mc_scale (zoomIn_container mc) = max (1/10) (min 10 (mc_scale mc * (13/10)))
       \<and> mc_scale (zoomOut_container mc) = max (1/10) (min 10 (mc_scale mc * (7/10)))
       \<and> mc_x (zoomIn_container mc) = mc_x mc \<and> mc_y (zoomIn_container mc) = mc_y mc
       \<and> mc_x (zoomOut_container mc) = mc_x mc \<and> mc_y (zoomOut_container mc) = mc_y mc
       \<and> world \<lparr>pt_x = mc_x mc, pt_y = mc_y mc\<rparr> (zoomIn_container mc)
            = world \<lparr>pt_x = mc_x mc, pt_y = mc_y mc\<rparr> mc
       \<and> world \<lparr>pt_x = mc_x mc, pt_y = mc_y mc\<rparr> (zoomOut_container mc)
            = world \<lparr>pt_x = mc_x mc, pt_y = mc_y mc\<rparr> mc"
  using assms by (simp add: zoomIn_container_def zoomOut_container_def world_def)

theorem button_zoom_frame_witness:
  "1/10 \<le> mc_scale \<lparr>mc_x = 100, mc_y = 100, mc_scale = 1\<rparr>
   \<and> mc_scale \<lparr>mc_x = 100, mc_y = 100, mc_scale = 1\<rparr> \<le> 10
   \<and> zoomIn_container \<lparr>mc_x = 100, mc_y = 100, mc_scale = 1\<rparr>
       = \<lparr>mc_x = 100, mc_y = 100, mc_scale = 13/10\<rparr>
   \<and> world \<lparr>pt_x = 100, pt_y = 100\<rparr> (zoomIn_container \<lparr>mc_x = 100, mc_y = 100, mc_scale = 1\<rparr>)
       = world \<lparr>pt_x = 100, pt_y = 100\<rparr> \<lparr>mc_x = 100, mc_y = 100, mc_scale = 1\<rparr>"
proof -
  let ?mc = "\<lparr>mc_x = 100, mc_y = 100, mc_scale = 1\<rparr>"
  have h1: "1/10 \<le> mc_scale ?mc" by simp
  have h2: "mc_scale ?mc \<le> 10" by simp
  from button_zoom_frame [OF h1 h2] h1 h2 show ?thesis
    by (simp add: zoomIn_container_def)
qed

text \<open>
  C9 as stated fails, for the screen origin is not that point: with the container at \<open>(100, 100)\<close> and scale
  \<open>1\<close>, the content point under the screen's \<open>(0, 0)\<close> is \<open>(-100, -100)\<close> before
  "zoom in" and \<open>(-1000/13, -1000/13)\<close> after.
\<close>

theorem button_zoom_moves_screen_origin:
  "world \<lparr>pt_x = 0, pt_y = 0\<rparr> \<lparr>mc_x = 100, mc_y = 100, mc_scale = 1\<rparr>
     = \<lparr>pt_x = - 100, pt_y = - 100\<rparr>
   \<and> world \<lparr>pt_x = 0, pt_y = 0\<rparr> (zoomIn_container \<lparr>mc_x = 100, mc_y = 100, mc_scale = 1\<rparr>)
     = \<lparr>pt_x = - (1000 / 13), pt_y = - (1000 / 13)\<rparr>
   \<and> (- (1000 / 13) :: real) \<noteq> - 100"
  by (simp add: world_def zoomIn_container_def)

subsection \<open>The minimap rectangle\<close>

lemma viewportStyle_extents:
  "5 \<le> st_width (viewportStyle vb) \<and> st_width (viewportStyle vb) \<le> 100
   \<and> 5 \<le> st_height (viewportStyle vb) \<and> st_height (viewportStyle vb) \<le> 100
   \<and> 0 \<le> st_left (viewportStyle vb) \<and> 0 \<le> st_top (viewportStyle vb)"
  by (simp add: viewportStyle_def)

lemma viewportStyle_within:
  assumes "5 \<le> vb_width vb" and "vb_width vb \<le> 100"
      and "5 \<le> vb_height vb" and "vb_height vb \<le> 100"
  shows "st_left (viewportStyle vb) + st_width (viewportStyle vb) \<le> 100
       \<and> st_top (viewportStyle vb) + st_height (viewportStyle vb) \<le> 100"
  using assms by (auto simp: viewportStyle_def)

text \<open>
  C5 (minimap rectangle bounds). The origin is clamped against the extent before the
  minimum of \<open>5\<close> is applied to it. A \<open>2000 \<times> 1200\<close> image on an \<open>800 \<times> 660\<close>
  screen, zoomed in to scale \<open>10\<close> with the button and sent to its right edge by a
  click on pixel \<open>(2, 0)\<close> of the \<open>192 \<times> 144\<close> minimap (which hands over
  \<open>(2 / 192 * 100, 0)\<close>): the bounds are \<open>{x: 613/6, y: 0, width: 4, height: 5}\<close>,
  the rectangle is drawn at \<open>left = 96\<close> with \<open>width = 5\<close>, and its right edge is at
  \<open>101\<close> percent.
\<close>

theorem minimap_rectangle_overflows:
  "viewportBounds
     (run (initPixi \<lparr>lo_init = True, lo_screen = \<lparr>d_width = 800, d_height = 660\<rparr>,
                     lo_base = Some \<lparr>d_width = 2000, d_height = 1200\<rparr>,
                     lo_overlay = (\<lambda>k. True)\<rparr> (mounted 1))
        [ZoomIn, ZoomIn, ZoomIn, ZoomIn, ZoomIn, ZoomIn, ZoomIn, ZoomIn, ZoomIn, ZoomIn,
         ZoomIn, ZoomIn, ZoomIn, MiniMapNavigate (2 / 192 * 100) 0])
     = \<lparr>vb_x = 613 / 6, vb_y = 0, vb_width = 4, vb_height = 5\<rparr>
   \<and> viewportStyle \<lparr>vb_x = 613 / 6, vb_y = 0, vb_width = 4, vb_height = 5\<rparr>
     = \<lparr>st_left = 96, st_top = 0, st_width = 5, st_height = 5\<rparr>
   \<and> (96 + 5 :: real) > 100"
  by (simp add: initPixi_def mounted_def overlayConfigs_def fit_container_def fit_scale_def
        updateViewportBounds_def bounds_of_def Let_def run_def handleZoomIn_def zoomIn_container_def
        handleMiniMapNavigate_def navigate_container_def viewportStyle_def)

subsection \<open>Minimap clicks\<close>

text \<open>
  Given a fraction \<open>(x, y)\<close> of the content, \<open>handleMiniMapNavigate\<close> keeps the scale
  and brings the content point \<open>(x * width, y * height)\<close> under the centre of the
  area below the 60-pixel header.
\<close>

lemma navigate_centres:
  assumes "mc_scale mc \<noteq> 0"
  shows "mc_scale (navigate_container sc bs x y mc) = mc_scale mc
       \<and> world \<lparr>pt_x = d_width sc / 2, pt_y = (d_height sc - 60) / 2 + 60\<rparr>
               (navigate_container sc bs x y mc)
           = \<lparr>pt_x = x * d_width bs, pt_y = y * d_height bs\<rparr>"
  using assms by (simp add: navigate_container_def world_def)

lemma handleMiniMapClick_ignores_point:
  "handleMiniMapClick centerView x y st = handleMiniMapClick centerView x' y' st"
  by (simp add: handleMiniMapClick_def)

text \<open>
  C6 (minimap click recentring). The minimap hands over percentages
  (\<open>x * 100\<close>, \<open>y * 100\<close>). In the GPU viewer a click in the middle of the minimap
  (\<open>q = (0.5, 0.5)\<close>; image \<open>900 \<times> 900\<close>, screen \<open>1000 \<times> 1060\<close>, scale \<open>1\<close>) puts
  the content point \<open>(45000, 45000)\<close> under the viewport centre \<open>(500, 560)\<close>, not
  \<open>q * contentSize = (450, 450)\<close>. In the direct viewer two clicks at different
  minimap points lead to the same state, whatever \<open>centerView\<close> does.
\<close>

theorem minimap_click_misses_point:
  "transform (MiniMap_handleClick handleMiniMapNavigate \<lparr>clientX = 96, clientY = 72\<rparr>
         \<lparr>r_left = 0, r_top = 0, r_width = 192, r_height = 144\<rparr>
         (initPixi \<lparr>lo_init = True, lo_screen = \<lparr>d_width = 1000, d_height = 1060\<rparr>,
                    lo_base = Some \<lparr>d_width = 900, d_height = 900\<rparr>,
                    lo_overlay = (\<lambda>k. True)\<rparr> (mounted 1)))
     = Some \<lparr>mc_x = - 44500, mc_y = - 44440, mc_scale = 1\<rparr>
   \<and> world \<lparr>pt_x = 1000 / 2, pt_y = (1060 - 60) / 2 + 60\<rparr>
        \<lparr>mc_x = - 44500, mc_y = - 44440, mc_scale = 1\<rparr>
     = \<lparr>pt_x = 45000, pt_y = 45000\<rparr>
   \<and> MiniMap_handleClick (handleMiniMapClick centerView) \<lparr>clientX = 19, clientY = 14\<rparr>
        \<lparr>r_left = 0, r_top = 0, r_width = 192, r_height = 144\<rparr> st
     = MiniMap_handleClick (handleMiniMapClick centerView) \<lparr>clientX = 173, clientY = 130\<rparr>
        \<lparr>r_left = 0, r_top = 0, r_width = 192, r_height = 144\<rparr> st"
  by (simp add: MiniMap_handleClick_def handleMiniMapNavigate_def navigate_container_def
        initPixi_def mounted_def overlayConfigs_def fit_container_def fit_scale_def
        Let_def transform_def world_def handleMiniMapClick_def)


subsection \<open>Page change\<close>

lemma clickPos_updateViewportBounds [simp]: "clickPos (updateViewportBounds v) = clickPos v"
  by (simp add: updateViewportBounds_def split: option.splits)

lemma clickPos_initPixi: "clickPos (initPixi lo v) = clickPos v"
  by (simp add: initPixi_def initPixi_catch_def Let_def split: option.splits prod.splits)

lemma clickPos_page_change: "clickPos (page_change old_base new_base sf lo v) = clickPos v"
  by (simp add: page_change_def clickPos_initPixi split: option.splits)

text \<open>
  C7 as the code has it. A page change that brings a new base URL or a new scaling
  factor re-initialises the GPU viewer: once the application and the base texture
  have loaded, its transform is the fit of the new image. A page change that brings
  neither leaves the GPU viewer's state as it is. The direct viewer's effect, run on
  a new base image path, resets \<open>imageLoaded\<close> and \<open>imageError\<close> and touches
  neither the transform nor the measurement. In every case the measurement is the
  one shown before.
\<close>

theorem page_change_effect:
  assumes "new_base = Some url" and "new_base \<noteq> old_base \<or> sf \<noteq> scaling_factor v"
      and "lo_init lo" and "lo_base lo = Some bs" and "b' \<noteq> b"
  shows "transform (page_change old_base new_base sf lo v) = Some (fit_container (lo_screen lo) bs)
       \<and> clickPos (page_change old_base new_base sf lo v) = clickPos v
       \<and> page_change old_base old_base (scaling_factor v) lo v = v
       \<and> cv_transform (ComparisonViewer_page_change b b' st) = cv_transform st
       \<and> cv_clickPos (ComparisonViewer_page_change b b' st) = cv_clickPos st
       \<and> \<not> cv_imageLoaded (ComparisonViewer_page_change b b' st)
       \<and> cv_imageError (ComparisonViewer_page_change b b' st) = None
       \<and> ComparisonViewer_page_change b b st = st"
proof -
  have run: "page_change old_base new_base sf lo v = initPixi lo (v\<lparr>scaling_factor := sf\<rparr>)"
    using assms(1,2) by (auto simp: page_change_def)
  have t: "transform (page_change old_base new_base sf lo v) = Some (fit_container (lo_screen lo) bs)"
    by (simp add: run transform_def pixiRef_initPixi [OF assms(3,4)])
  have c: "clickPos (page_change old_base new_base sf lo v) = clickPos v"
    by (simp add: run clickPos_initPixi)
  have same: "page_change old_base old_base (scaling_factor v) lo v = v"
    by (simp add: page_change_def)
  have d: "ComparisonViewer_page_change b b' st = data_changed st"
    using assms(5) by (simp add: ComparisonViewer_page_change_def)
  have dsame: "ComparisonViewer_page_change b b st = st"
    by (simp add: ComparisonViewer_page_change_def)
  from t c same dsame show ?thesis by (simp add: d data_changed_def)
qed

text \<open>
  The theorem at a viewer that shows a measurement and has been zoomed, going from
  page 0 (\<open>900 \<times> 900\<close>, scaling factor \<open>1\<close>) to page 1 (\<open>450 \<times> 450\<close>, scaling factor
  \<open>2\<close>), and at a direct viewer that shows a measurement at scale \<open>2\<close>.
\<close>

theorem page_change_effect_witness:
  "Some ''/images/page1_base.png'' \<noteq> Some ''/images/page0_base.png''
   \<and> lo_init \<lparr>lo_init = True, lo_screen = \<lparr>d_width = 1000, d_height = 1060\<rparr>,
              lo_base = Some \<lparr>d_width = 450, d_height = 450\<rparr>, lo_overlay = (\<lambda>k. True)\<rparr>
   \<and> lo_base \<lparr>lo_init = True, lo_screen = \<lparr>d_width = 1000, d_height = 1060\<rparr>,
               lo_base = Some \<lparr>d_width = 450, d_height = 450\<rparr>, lo_overlay = (\<lambda>k. True)\<rparr>
       = Some \<lparr>d_width = 450, d_height = 450\<rparr>
   \<and> transform (run (initPixi \<lparr>lo_init = True, lo_screen = \<lparr>d_width = 1000, d_height = 1060\<rparr>,
                              lo_base = Some \<lparr>d_width = 900, d_height = 900\<rparr>,
                              lo_overlay = (\<lambda>k. True)\<rparr> (mounted 1))
          [PointerDown \<lparr>pt_x = 100, pt_y = 100\<rparr>, PointerUp, Click \<lparr>pt_x = 100, pt_y = 100\<rparr>, ZoomIn])
       = Some \<lparr>mc_x = 50, mc_y = 110, mc_scale = 13 / 10\<rparr>
   \<and> transform (page_change (Some ''/images/page0_base.png'') (Some ''/images/page1_base.png'') 2
         \<lparr>lo_init = True, lo_screen = \<lparr>d_width = 1000, d_height = 1060\<rparr>,
          lo_base = Some \<lparr>d_width = 450, d_height = 450\<rparr>, lo_overlay = (\<lambda>k. True)\<rparr>
         (run (initPixi \<lparr>lo_init = True, lo_screen = \<lparr>d_width = 1000, d_height = 1060\<rparr>,
                         lo_base = Some \<lparr>d_width = 900, d_height = 900\<rparr>,
                         lo_overlay = (\<lambda>k. True)\<rparr> (mounted 1))
          [PointerDown \<lparr>pt_x = 100, pt_y = 100\<rparr>, PointerUp, Click \<lparr>pt_x = 100, pt_y = 100\<rparr>, ZoomIn]))
       = Some \<lparr>mc_x = 50, mc_y = 110, mc_scale = 2\<rparr>
   \<and> clickPos (page_change (Some ''/images/page0_base.png'') (Some ''/images/page1_base.png'') 2
         \<lparr>lo_init = True, lo_screen = \<lparr>d_width = 1000, d_height = 1060\<rparr>,
          lo_base = Some \<lparr>d_width = 450, d_height = 450\<rparr>, lo_overlay = (\<lambda>k. True)\<rparr>
         (run (initPixi \<lparr>lo_init = True, lo_screen = \<lparr>d_width = 1000, d_height = 1060\<rparr>,
                         lo_base = Some \<lparr>d_width = 900, d_height = 900\<rparr>,
                         lo_overlay = (\<lambda>k. True)\<rparr> (mounted 1))
          [PointerDown \<lparr>pt_x = 100, pt_y = 100\<rparr>, PointerUp, Click \<lparr>pt_x = 100, pt_y = 100\<rparr>, ZoomIn]))
       = Some \<lparr>cp_screen = (100, 100), cp_original = (50, - 10)\<rparr>
   \<and> ComparisonViewer_page_change (Some ''/images/page0_base.png'') (Some ''/images/page1_base.png'')
         \<lparr>cv_clickPos = Some \<lparr>cp_screen = (100, 100), cp_original = (50, 50)\<rparr>,
          cv_imageLoaded = True, cv_imageError = None,
          cv_transform = Some \<lparr>mc_x = 0, mc_y = 0, mc_scale = 2\<rparr>\<rparr>
       = \<lparr>cv_clickPos = Some \<lparr>cp_screen = (100, 100), cp_original = (50, 50)\<rparr>,
          cv_imageLoaded = False, cv_imageError = None,
          cv_transform = Some \<lparr>mc_x = 0, mc_y = 0, mc_scale = 2\<rparr>\<rparr>"
proof -
  let ?before = "\<lparr>lo_init = True, lo_screen = \<lparr>d_width = 1000, d_height = 1060\<rparr>,
              lo_base = Some \<lparr>d_width = 900, d_height = 900\<rparr>, lo_overlay = (\<lambda>k. True)\<rparr>"
  let ?after = "\<lparr>lo_init = True, lo_screen = \<lparr>d_width = 1000, d_height = 1060\<rparr>,
             lo_base = Some \<lparr>d_width = 450, d_height = 450\<rparr>, lo_overlay = (\<lambda>k. True)\<rparr>"
  let ?v = "run (initPixi ?before (mounted 1))
              [PointerDown \<lparr>pt_x = 100, pt_y = 100\<rparr>, PointerUp, Click \<lparr>pt_x = 100, pt_y = 100\<rparr>, ZoomIn]"
  let ?st = "\<lparr>cv_clickPos = Some \<lparr>cp_screen = (100, 100), cp_original = (50, 50)\<rparr>,
              cv_imageLoaded = True, cv_imageError = None,
              cv_transform = Some \<lparr>mc_x = 0, mc_y = 0, mc_scale = 2\<rparr>\<rparr>"
  have h1: "Some ''/images/page1_base.png'' = Some ''/images/page1_base.png''" by simp
  have h5: "Some ''/images/page1_base.png'' \<noteq> Some ''/images/page0_base.png''" by simp
  then have h2: "Some ''/images/page1_base.png'' \<noteq> Some ''/images/page0_base.png''
                  \<or> 2 \<noteq> scaling_factor ?v" by blast
  have h3: "lo_init ?after" by simp
  have h4: "lo_base ?after = Some \<lparr>d_width = 450, d_height = 450\<rparr>" by simp
  have v: "transform ?v = Some \<lparr>mc_x = 50, mc_y = 110, mc_scale = 13 / 10\<rparr>
         \<and> clickPos ?v = Some \<lparr>cp_screen = (100, 100), cp_original = (50, - 10)\<rparr>"
    by (simp add: initPixi_def mounted_def overlayConfigs_def fit_container_def fit_scale_def
          updateViewportBounds_def bounds_of_def pointerdown_def endDrag_def handleZoomIn_def
          zoomIn_container_def transform_def
          Let_def run_def click_def click_measurement_def world_def Math_round_def)
  have st: "cv_transform ?st = Some \<lparr>mc_x = 0, mc_y = 0, mc_scale = 2\<rparr>
          \<and> cv_clickPos ?st = Some \<lparr>cp_screen = (100, 100), cp_original = (50, 50)\<rparr>" by simp
  have fit: "fit_container (lo_screen ?after) \<lparr>d_width = 450, d_height = 450\<rparr>
               = \<lparr>mc_x = 50, mc_y = 110, mc_scale = 2\<rparr>"
    by (simp add: fit_container_def fit_scale_def Let_def)
  from page_change_effect [OF h1 h2 h3 h4 h5, of ?st, unfolded fit] v st h3 h4 h5
  show ?thesis by (simp add: cviewer.equality)
qed

text \<open>
  C7 as stated fails. A measurement taken on page 0 is still shown after the change
  to page 1 (new base URL, new scaling factor), in both viewers, and the direct viewer
  keeps its zoom; and when the new page's data has the same base URL and scaling
  factor, the GPU viewer keeps its zoom too.
\<close>

theorem page_change_keeps_measurement:
  "clickPos (page_change (Some ''/images/page0_base.png'') (Some ''/images/page1_base.png'') 2
       \<lparr>lo_init = True, lo_screen = \<lparr>d_width = 1000, d_height = 1060\<rparr>,
        lo_base = Some \<lparr>d_width = 450, d_height = 450\<rparr>, lo_overlay = (\<lambda>k. True)\<rparr>
       (run (initPixi \<lparr>lo_init = True, lo_screen = \<lparr>d_width = 1000, d_height = 1060\<rparr>,
                       lo_base = Some \<lparr>d_width = 900, d_height = 900\<rparr>,
                       lo_overlay = (\<lambda>k. True)\<rparr> (mounted 1))
            [PointerDown \<lparr>pt_x = 100, pt_y = 100\<rparr>, PointerUp, Click \<lparr>pt_x = 100, pt_y = 100\<rparr>]))
     = Some \<lparr>cp_screen = (100, 100), cp_original = (50, - 10)\<rparr>
   \<and> cv_clickPos (ComparisonViewer_page_change
                    (Some ''/images/page0_base.png'') (Some ''/images/page1_base.png'')
                    \<lparr>cv_clickPos = Some \<lparr>cp_screen = (100, 100), cp_original = (50, 50)\<rparr>,
                     cv_imageLoaded = True, cv_imageError = None,
                     cv_transform = Some \<lparr>mc_x = 0, mc_y = 0, mc_scale = 2\<rparr>\<rparr>)
     = Some \<lparr>cp_screen = (100, 100), cp_original = (50, 50)\<rparr>
   \<and> cv_transform (ComparisonViewer_page_change
                    (Some ''/images/page0_base.png'') (Some ''/images/page1_base.png'')
                    \<lparr>cv_clickPos = Some \<lparr>cp_screen = (100, 100), cp_original = (50, 50)\<rparr>,
                     cv_imageLoaded = True, cv_imageError = None,
                     cv_transform = Some \<lparr>mc_x = 0, mc_y = 0, mc_scale = 2\<rparr>\<rparr>)
     = Some \<lparr>mc_x = 0, mc_y = 0, mc_scale = 2\<rparr>
   \<and> transform (page_change (Some ''/images/base.png'') (Some ''/images/base.png'') 1
       \<lparr>lo_init = True, lo_screen = \<lparr>d_width = 1000, d_height = 1060\<rparr>,
        lo_base = Some \<lparr>d_width = 900, d_height = 900\<rparr>, lo_overlay = (\<lambda>k. True)\<rparr>
       (run (initPixi \<lparr>lo_init = True, lo_screen = \<lparr>d_width = 1000, d_height = 1060\<rparr>,
                       lo_base = Some \<lparr>d_width = 900, d_height = 900\<rparr>,
                       lo_overlay = (\<lambda>k. True)\<rparr> (mounted 1))
            [ZoomIn]))
     = Some \<lparr>mc_x = 50, mc_y = 110, mc_scale = 13 / 10\<rparr>
   \<and> fit_container \<lparr>d_width = 1000, d_height = 1060\<rparr> \<lparr>d_width = 900, d_height = 900\<rparr>
     = \<lparr>mc_x = 50, mc_y = 110, mc_scale = 1\<rparr>"
  by (simp add: clickPos_page_change ComparisonViewer_page_change_def data_changed_def)
     (simp add: page_change_def initPixi_def mounted_def overlayConfigs_def fit_container_def
        fit_scale_def updateViewportBounds_def bounds_of_def pointerdown_def endDrag_def
        handleZoomIn_def zoomIn_container_def transform_def
        Let_def run_def click_def click_measurement_def world_def Math_round_def)

subsection \<open>Load failures\<close>

lemma load_overlays_all:
  "load_overlays ok overlayConfigs (\<lambda>k. None, lg)
     = (\<lambda>k. if ok k
             then Some \<lparr>zIndex = (case k of Red \<Rightarrow> 1 | Green \<Rightarrow> 2 | Blue \<Rightarrow> 3),
                        alpha = 6/10, visible = True\<rparr>
             else None,
        lg @ map Warn_failed_to_load (filter (\<lambda>k. \<not> ok k) [Red, Green, Blue]))"
proof -
  have f: "fst (load_overlays ok overlayConfigs (\<lambda>k. None, lg)) k
             = (if ok k
                then Some \<lparr>zIndex = (case k of Red \<Rightarrow> 1 | Green \<Rightarrow> 2 | Blue \<Rightarrow> 3),
                           alpha = 6/10, visible = True\<rparr>
                else None)" for k
    by (cases k) (simp_all add: overlayConfigs_def)
  have s: "snd (load_overlays ok overlayConfigs (\<lambda>k. None, lg))
             = lg @ map Warn_failed_to_load (filter (\<lambda>k. \<not> ok k) [Red, Green, Blue])"
    by (simp add: overlayConfigs_def)
  show ?thesis
    by (rule prod_eqI) (simp_all add: f s fun_eq_iff)
qed

lemma run_without_application:
  assumes "pixiRef v = None"
  shows "pixiRef (run v es) = None"
  using assms unfolding run_def
proof (induction es arbitrary: v)
  case Nil then show ?case by simp
next
  case (Cons e es)
  have "pixiRef (step v e) = None" using Cons.prems by (simp only: pixiRef_step option.map)
  from Cons.IH [OF this] show ?case by simp
qed

text \<open>
  C8 as the code has it. If the application and the base texture load, the ref holds
  the fitted container, the base and exactly the overlays whose load succeeded
  (z-index 1, 2, 3, alpha 0.6, visible), one warning is logged for each overlay that
  failed, the spinner is off and the viewport answers a wheel event. If the
  application or the base texture fails, the \<open>catch\<close> logs one error and turns the
  spinner off: the ref stays empty through every later event, and the component
  renders its ordinary viewer with the zoom label, measurement and minimap bounds it
  had. The direct viewer records \<open>imageError\<close> when its base image fails.
\<close>

theorem load_failure_handling:
  "(case (if lo_init lo then lo_base lo else None) of
      Some bs \<Rightarrow>
        pixiRef (initPixi lo v)
          = Some \<lparr>screen = lo_screen lo, mainContainer = fit_container (lo_screen lo) bs,
                  baseSprite = bs,
                  overlays = (\<lambda>k. if lo_overlay lo k
                                   then Some \<lparr>zIndex = (case k of Red \<Rightarrow> 1 | Green \<Rightarrow> 2 | Blue \<Rightarrow> 3),
                                              alpha = 6/10, visible = True\<rparr>
                                   else None)\<rparr>
        \<and> console (initPixi lo v)
            = console v @ map Warn_failed_to_load (filter (\<lambda>k. \<not> lo_overlay lo k) [Red, Green, Blue])
        \<and> \<not> isLoading (initPixi lo v)
        \<and> transform (wheel e (initPixi lo v)) = Some (wheel_container e (fit_container (lo_screen lo) bs))
    | None \<Rightarrow>
        pixiRef (initPixi lo v) = None
        \<and> console (initPixi lo v) = console v @ [Error_pixi_init]
        \<and> \<not> isLoading (initPixi lo v)
        \<and> transform (run (initPixi lo v) es) = None
        \<and> PixiViewer_render True (initPixi lo v)
            = Viewer_ui False (zoomLevel v) (clickPos v) (viewportBounds v))
   \<and> cv_imageError (handleImageError st) = Some ''Failed to load image''"
proof -
  have img: "cv_imageError (handleImageError st) = Some ''Failed to load image''"
    by (simp add: handleImageError_def)
  show ?thesis
  proof (cases "if lo_init lo then lo_base lo else None")
    case None
    then have fail: "initPixi lo v = initPixi_catch (v\<lparr>pixiRef := None, isLoading := True\<rparr>)"
      by (auto simp: initPixi_def Let_def split: if_splits)
    have p: "pixiRef (initPixi lo v) = None" by (simp add: fail initPixi_catch_def)
    from run_without_application [OF p, of es] p None img show ?thesis
      by (simp add: transform_def) (simp add: fail initPixi_catch_def PixiViewer_render_def)
  next
    case (Some bs)
    then have i: "lo_init lo" and b: "lo_base lo = Some bs" by (auto split: if_splits)
    have p: "pixiRef (initPixi lo v)
          = Some \<lparr>screen = lo_screen lo, mainContainer = fit_container (lo_screen lo) bs,
                  baseSprite = bs,
                  overlays = (\<lambda>k. if lo_overlay lo k
                                   then Some \<lparr>zIndex = (case k of Red \<Rightarrow> 1 | Green \<Rightarrow> 2 | Blue \<Rightarrow> 3),
                                              alpha = 6/10, visible = True\<rparr>
                                   else None)\<rparr>"
      by (simp add: pixiRef_initPixi [OF i b] load_overlays_all)
    have c: "console (initPixi lo v)
            = console v @ map Warn_failed_to_load (filter (\<lambda>k. \<not> lo_overlay lo k) [Red, Green, Blue])"
      using i b by (simp add: initPixi_def Let_def load_overlays_all updateViewportBounds_def)
    have l: "\<not> isLoading (initPixi lo v)"
      using i b by (simp add: initPixi_def Let_def load_overlays_all updateViewportBounds_def)
    have w: "transform (wheel e (initPixi lo v)) = Some (wheel_container e (fit_container (lo_screen lo) bs))"
      using p by (simp add: transform_def wheel_def Let_def)
    from p c l w img Some show ?thesis by simp
  qed
qed

text \<open>
  C8 as stated fails: there is no error state to tell a failed base load by; on a \<open>1000 \<times> 1060\<close> screen
  the component renders the same after the base texture failed as after a
  \<open>900 \<times> 900\<close> image loaded.
\<close>

theorem failed_base_load_shows_viewer:
  "PixiViewer_render True
      (initPixi \<lparr>lo_init = True, lo_screen = \<lparr>d_width = 1000, d_height = 1060\<rparr>,
                 lo_base = None, lo_overlay = (\<lambda>k. True)\<rparr> (mounted 1))
     = Viewer_ui False 100 None \<lparr>vb_x = 0, vb_y = 0, vb_width = 100, vb_height = 100\<rparr>
   \<and> PixiViewer_render True
      (initPixi \<lparr>lo_init = True, lo_screen = \<lparr>d_width = 1000, d_height = 1060\<rparr>,
                 lo_base = Some \<lparr>d_width = 900, d_height = 900\<rparr>,
                 lo_overlay = (\<lambda>k. True)\<rparr> (mounted 1))
     = Viewer_ui False 100 None \<lparr>vb_x = 0, vb_y = 0, vb_width = 100, vb_height = 100\<rparr>"
  by (simp add: initPixi_def initPixi_catch_def mounted_def overlayConfigs_def fit_container_def
        fit_scale_def updateViewportBounds_def bounds_of_def Let_def Math_round_def
        PixiViewer_render_def)

end
